theory Spec2Isabelle
  imports Complex_Main
begin

section \<open>Python strings\<close>

text \<open>
  Texts are \<^typ>\<open>string\<close>s, a character standing for a code point below 256.
  \<open>str.lower()\<close> changes, among these, the letters \<open>A..Z\<close> and the capital letters
  of the code points 192 to 222 (but the sign at 215), each to the code point 32 above it.
\<close>

definition upper_lower_table :: "(char \<times> char) list" where
  "upper_lower_table =
     zip ''ABCDEFGHIJKLMNOPQRSTUVWXYZ'' ''abcdefghijklmnopqrstuvwxyz''
     @ zip [CHR 0xC0, CHR 0xC1, CHR 0xC2, CHR 0xC3, CHR 0xC4, CHR 0xC5, CHR 0xC6, CHR 0xC7, CHR 0xC8, CHR 0xC9,
            CHR 0xCA, CHR 0xCB, CHR 0xCC, CHR 0xCD, CHR 0xCE, CHR 0xCF, CHR 0xD0, CHR 0xD1, CHR 0xD2, CHR 0xD3,
            CHR 0xD4, CHR 0xD5, CHR 0xD6, CHR 0xD8, CHR 0xD9, CHR 0xDA, CHR 0xDB, CHR 0xDC, CHR 0xDD, CHR 0xDE]
           [CHR 0xE0, CHR 0xE1, CHR 0xE2, CHR 0xE3, CHR 0xE4, CHR 0xE5, CHR 0xE6, CHR 0xE7, CHR 0xE8, CHR 0xE9,
            CHR 0xEA, CHR 0xEB, CHR 0xEC, CHR 0xED, CHR 0xEE, CHR 0xEF, CHR 0xF0, CHR 0xF1, CHR 0xF2, CHR 0xF3,
            CHR 0xF4, CHR 0xF5, CHR 0xF6, CHR 0xF8, CHR 0xF9, CHR 0xFA, CHR 0xFB, CHR 0xFC, CHR 0xFD, CHR 0xFE]"

definition lower_char :: "char \<Rightarrow> char" where
  "lower_char c = (case map_of upper_lower_table c of Some d \<Rightarrow> d | None \<Rightarrow> c)"

definition lower :: "string \<Rightarrow> string" where
  "lower s = map lower_char s"

fun is_prefix :: "string \<Rightarrow> string \<Rightarrow> bool" where
  "is_prefix [] t = True"
| "is_prefix (c # w) [] = False"
| "is_prefix (c # w) (d # t) = (c = d \<and> is_prefix w t)"

text \<open>\<open>str_in w t\<close> is Python's \<open>w in t\<close> on strings: \<open>w\<close> occurs in \<open>t\<close> as a substring.\<close>

primrec str_in :: "string \<Rightarrow> string \<Rightarrow> bool" where
  "str_in w [] = (w = [])"
| "str_in w (c # t) = (is_prefix w (c # t) \<or> str_in w t)"

text \<open>\<open>any(k in t for k in ks)\<close>.\<close>

definition any_in :: "string list \<Rightarrow> string \<Rightarrow> bool" where
  "any_in ks t = list_ex (\<lambda>k. str_in k t) ks"

text \<open>\<open>s.split('.')\<close>: the pieces between the separators, the empty ones included.\<close>

primrec split_on :: "char \<Rightarrow> string \<Rightarrow> string list" where
  "split_on sep [] = [[]]"
| "split_on sep (c # cs) =
     (if c = sep then [] # split_on sep cs
      else (case split_on sep cs of [] \<Rightarrow> [[c]] | x # xs \<Rightarrow> (c # x) # xs))"

text \<open>The characters below code point 256 that \<open>str.strip()\<close> removes.\<close>

definition whitespace :: "char list" where
  "whitespace = map char_of [9, 10, 11, 12, 13, 28, 29, 30, 31, 32, 133, 160 :: nat]"

definition is_space :: "char \<Rightarrow> bool" where
  "is_space c = (c \<in> set whitespace)"

definition strip :: "string \<Rightarrow> string" where
  "strip s = rev (dropWhile is_space (rev (dropWhile is_space s)))"

section \<open>JSON values and dictionaries\<close>

text \<open>
  The verdicts are Python dictionaries whose values are not typed (\<open>Dict[str, Any]\<close>):
  what the generative provider sends back is stored as it came. A dictionary literal is an
  association list in the order of its keys, \<open>d[k]\<close> and \<open>d.get(k, default)\<close> read it
  with \<^const>\<open>map_of\<close>.
\<close>

datatype json =
    JNull
  | JBool bool
  | JNum real
  | JStr string
  | JArr "json list"
  | JObj "(string \<times> json) list"

type_synonym pydict = "(string \<times> json) list"

definition dict_get :: "pydict \<Rightarrow> string \<Rightarrow> json \<Rightarrow> json" where
  "dict_get d k dflt = (case map_of d k of None \<Rightarrow> dflt | Some v \<Rightarrow> v)"

datatype error =
    ProviderError
  | KeyError
  | AttributeError
  | TypeError
  | ValueError
  | LexiconError

section \<open>Aspect extraction (sentiment\_service.extract\_aspects\_basic)\<close>

definition aspect_keywords :: "(string \<times> string list) list" where
  "aspect_keywords =
    [(''quality'', [''quality'', ''build'', ''construction'', ''durability'', ''sturdy'', ''solid'']),
     (''price'', [''price'', ''cost'', ''value'', ''expensive'', ''cheap'', ''affordable'', ''worth'']),
     (''performance'', [''performance'', ''speed'', ''fast'', ''slow'', ''responsive'', ''lag'']),
     (''design'', [''design'', ''look'', ''style'', ''appearance'', ''aesthetic'', ''beautiful'', ''ugly'']),
     (''usability'', [''easy to use'', ''user friendly'', ''intuitive'', ''complicated'', ''difficult'', ''simple'']),
     (''customer service'', [''service'', ''support'', ''help'', ''assistance'', ''representative'', ''warranty'']),
     (''delivery'', [''delivery'', ''shipping'', ''arrived'', ''package'', ''box'', ''packaging''])]"

definition aspect_score :: "string \<Rightarrow> real" where
  "aspect_score sentiment =
     (if sentiment = ''positive'' then 0.7 else (if sentiment = ''negative'' then 0.3 else 0.5))"

text \<open>
  The result dictionary \<open>aspects\<close>, as the list of its entries
  \<open>(aspect, sentiment, score)\<close> in insertion order.
\<close>

definition extract_aspects_basic :: "string \<Rightarrow> string \<Rightarrow> (string \<times> string \<times> real) list" where
  "extract_aspects_basic text overall_sentiment =
     (let text_lower = lower text in
      map (\<lambda>(aspect, keywords). (aspect, overall_sentiment, aspect_score overall_sentiment))
        (filter (\<lambda>(aspect, keywords). any_in keywords text_lower) aspect_keywords))"

definition aspects_json :: "(string \<times> string \<times> real) list \<Rightarrow> json" where
  "aspects_json aspects =
     JObj (map (\<lambda>(aspect, sentiment, score).
        (aspect, JObj [(''sentiment'', JStr sentiment), (''score'', JNum score)])) aspects)"

section \<open>Strengths and weaknesses (sentiment\_service.extract\_strengths\_weaknesses)\<close>

definition strength_indicators :: "string list" where
  "strength_indicators =
     [''good'', ''great'', ''excellent'', ''love'', ''best'', ''perfect'', ''recommend'', ''happy'',
      ''satisfied'', ''like'']"

definition weakness_indicators :: "string list" where
  "weakness_indicators =
     [''bad'', ''poor'', ''terrible'', ''hate'', ''worst'', ''disappointed'', ''waste'', ''unhappy'',
      ''broken'', ''issue'', ''problem'']"

definition extract_strengths_weaknesses :: "string \<Rightarrow> bool \<Rightarrow> string list" where
  "extract_strengths_weaknesses text strengths =
     (let sentences = split_on CHR ''.'' text;
          indicators = (if strengths then strength_indicators else weakness_indicators);
          results =
            filter (\<lambda>clean_sentence. clean_sentence \<noteq> [] \<and> length clean_sentence > 5)
              (map strip (filter (\<lambda>sentence. any_in indicators (lower sentence)) sentences))
      in take 3 results)"

section \<open>The keyword tier (sentiment\_service.analyze\_sentiment\_basic)\<close>

definition positive_words :: "string list" where
  "positive_words =
     [''good'', ''great'', ''excellent'', ''amazing'', ''love'', ''best'', ''perfect'', ''recommend'',
      ''happy'', ''satisfied'']"

definition negative_words :: "string list" where
  "negative_words =
     [''bad'', ''poor'', ''terrible'', ''awful'', ''hate'', ''worst'', ''disappointed'', ''waste'',
      ''unhappy'', ''broken'']"

text \<open>\<open>sum(1 for word in words if word in text_lower)\<close>.\<close>

definition keyword_count :: "string list \<Rightarrow> string \<Rightarrow> nat" where
  "keyword_count words text_lower =
     sum_list (map (\<lambda>word. 1) (filter (\<lambda>word. str_in word text_lower) words))"

definition positive_count :: "string \<Rightarrow> nat" where
  "positive_count text = keyword_count positive_words (lower text)"

definition negative_count :: "string \<Rightarrow> nat" where
  "negative_count text = keyword_count negative_words (lower text)"

text \<open>The branch on the two counts: the label and the score (floats read as reals).\<close>

definition basic_decision :: "nat \<Rightarrow> nat \<Rightarrow> string \<times> real" where
  "basic_decision pos neg =
     (if pos > neg then (''positive'', 0.5 + min 0.5 (real (pos - neg) / 10))
      else if neg > pos then (''negative'', 0.5 - min 0.5 (real (neg - pos) / 10))
      else (''neutral'', 0.5))"

definition summary_text :: "string \<Rightarrow> string" where
  "summary_text sentiment = ''The review expresses '' @ sentiment @ '' sentiment overall.''"

definition analyze_sentiment_basic :: "string \<Rightarrow> error + pydict" where
  "analyze_sentiment_basic text =
     (let (sentiment, score) = basic_decision (positive_count text) (negative_count text);
          aspects = extract_aspects_basic text sentiment
      in Inr [(''sentiment'', JStr sentiment),
              (''score'', JNum score),
              (''aspects'', aspects_json aspects),
              (''summary'', JStr (summary_text sentiment)),
              (''strengths'', JArr (map JStr (extract_strengths_weaknesses text True))),
              (''weaknesses'', JArr (map JStr (extract_strengths_weaknesses text False))),
              (''improvement_suggestions'', JArr [])])"

text \<open>The two fields of a verdict the claims speak about, read from a returned value.\<close>

definition sentiment_of :: "error + pydict \<Rightarrow> json option" where
  "sentiment_of r = (case r of Inl e \<Rightarrow> None | Inr v \<Rightarrow> map_of v ''sentiment'')"

definition score_of :: "error + pydict \<Rightarrow> json option" where
  "score_of r = (case r of Inl e \<Rightarrow> None | Inr v \<Rightarrow> map_of v ''score'')"

section \<open>The generative tier (sentiment\_service.analyze\_sentiment\_gemini)\<close>

text \<open>
  The request to the provider is outside the program. What comes back is either a failure
  inside the \<open>try\<close> block (the network, a status that is not 2xx, a response without
  the expected envelope, no \<open>{...}\<close> span, a span that is not JSON), or the dictionary that
  \<open>json.loads\<close> returns.
\<close>

datatype provider_reply =
    Request_failed
  | Json_object pydict

text \<open>
  A classified review as the synthesizer reads it: \<open>review.get("sentiment", "neutral")\<close>,
  \<open>review.get("strengths", [])\<close> and \<open>review.get("weaknesses", [])\<close>, the two lists
  holding strings.
\<close>

record classified_review =
  cr_sentiment :: "string option"
  cr_strengths :: "string list"
  cr_weaknesses :: "string list"

text \<open>
  The module's ambient state and the two outside engines: the provider key, the provider's
  reply to the prompt of a text and to the prompt of a batch of reviews for a product, and
  the lexicon engine.
\<close>

record environment =
  gemini_api_key :: "string option"
  gemini_sentiment_reply :: "string \<Rightarrow> provider_reply"
  gemini_insights_reply :: "classified_review list \<Rightarrow> string \<Rightarrow> provider_reply"
  vader_available :: bool
  vader_compound :: "string \<Rightarrow> error + real"

text \<open>\<open>if GEMINI_API_KEY:\<close> holds for a key that is set and not empty.\<close>

definition key_set :: "environment \<Rightarrow> bool" where
  "key_set env = (case gemini_api_key env of None \<Rightarrow> False | Some k \<Rightarrow> k \<noteq> [])"

definition analyze_sentiment_gemini :: "environment \<Rightarrow> string \<Rightarrow> error + pydict" where
  "analyze_sentiment_gemini env text =
     (case gemini_sentiment_reply env text of
        Request_failed \<Rightarrow> Inl ProviderError
      | Json_object result \<Rightarrow>
          (case map_of result ''sentiment'' of
             None \<Rightarrow> Inl KeyError
           | Some (JStr label) \<Rightarrow>
               (case map_of result ''sentiment_score'' of
                  None \<Rightarrow> Inl KeyError
                | Some sentiment_score \<Rightarrow>
                    Inr [(''sentiment'', JStr (lower label)),
                         (''score'', sentiment_score),
                         (''aspects'', dict_get result ''aspects'' (JObj [])),
                         (''summary'', dict_get result ''summary'' (JStr [])),
                         (''strengths'', dict_get result ''strengths'' (JArr [])),
                         (''weaknesses'', dict_get result ''weaknesses'' (JArr [])),
                         (''improvement_suggestions'',
                            dict_get result ''improvement_suggestions'' (JArr []))])
           | Some other \<Rightarrow> Inl AttributeError))"

section \<open>The lexicon tier (sentiment\_service.analyze\_sentiment\_vader)\<close>

text \<open>
  \<open>vader_compound\<close> is the lexicon engine's \<open>polarity_scores(text)['compound']\<close>, or the
  exception it raises; the \<open>except\<close> clause of the tier then answers with the keyword
  tier.
\<close>

definition analyze_sentiment_vader :: "environment \<Rightarrow> string \<Rightarrow> error + pydict" where
  "analyze_sentiment_vader env text =
     (case vader_compound env text of
        Inl e \<Rightarrow> analyze_sentiment_basic text
      | Inr compound \<Rightarrow>
          (let sentiment =
                 (if compound \<ge> 0.05 then ''positive''
                  else if compound \<le> - 0.05 then ''negative''
                  else ''neutral'');
               normalized_score = (compound + 1) / 2;
               aspects = extract_aspects_basic text sentiment
           in Inr [(''sentiment'', JStr sentiment),
                   (''score'', JNum normalized_score),
                   (''aspects'', aspects_json aspects),
                   (''summary'', JStr (summary_text sentiment)),
                   (''strengths'', JArr (map JStr (extract_strengths_weaknesses text True))),
                   (''weaknesses'', JArr (map JStr (extract_strengths_weaknesses text False))),
                   (''improvement_suggestions'', JArr [])]))"

section \<open>The cascade (sentiment\_service.analyze\_sentiment)\<close>

text \<open>
  An exception of the generative tier is caught by \<open>except Exception\<close> and the function
  goes on to the next tier; the two other calls are not guarded, so what they return or
  raise is what the caller gets.
\<close>

definition analyze_sentiment :: "environment \<Rightarrow> string \<Rightarrow> error + pydict" where
  "analyze_sentiment env text =
     (case (if key_set env then analyze_sentiment_gemini env text else Inl ProviderError) of
        Inr verdict \<Rightarrow> Inr verdict
      | Inl e \<Rightarrow>
          (if vader_available env then analyze_sentiment_vader env text
           else analyze_sentiment_basic text))"

text \<open>The generative tier is the one that answers.\<close>

definition generative_tier_answers :: "environment \<Rightarrow> string \<Rightarrow> bool" where
  "generative_tier_answers env text =
     (key_set env \<and> (case analyze_sentiment_gemini env text of Inl e \<Rightarrow> False | Inr v \<Rightarrow> True))"

text \<open>
  A returned verdict whose sentiment is one of the three labels and whose score is a
  number of \<open>[0, 1]\<close>.
\<close>

definition valid_verdict :: "error + pydict \<Rightarrow> bool" where
  "valid_verdict r =
     (case r of
        Inl e \<Rightarrow> False
      | Inr v \<Rightarrow>
          (case map_of v ''sentiment'' of
             Some (JStr label) \<Rightarrow> label \<in> {''positive'', ''neutral'', ''negative''}
           | _ \<Rightarrow> False)
          \<and> (case map_of v ''score'' of Some (JNum x) \<Rightarrow> 0 \<le> x \<and> x \<le> 1 | _ \<Rightarrow> False))"

definition confidence_of :: "error + pydict \<Rightarrow> json option" where
  "confidence_of r = (case r of Inl e \<Rightarrow> None | Inr v \<Rightarrow> map_of v ''confidence'')"

text \<open>A provider that answers with a label and a score outside the expected ones.\<close>

definition freehand_provider :: environment where
  "freehand_provider =
     \<lparr>gemini_api_key = Some ''key'',
      gemini_sentiment_reply =
        (\<lambda>text. Json_object [(''sentiment'', JStr ''MIXED''), (''sentiment_score'', JNum 1.5)]),
      gemini_insights_reply = (\<lambda>reviews product_name. Request_failed),
      vader_available = False,
      vader_compound = (\<lambda>text. Inl LexiconError)\<rparr>"

text \<open>No provider key and no lexicon engine: the keyword tier answers.\<close>

definition offline :: environment where
  "offline =
     \<lparr>gemini_api_key = None,
      gemini_sentiment_reply = (\<lambda>text. Request_failed),
      gemini_insights_reply = (\<lambda>reviews product_name. Request_failed),
      vader_available = False,
      vader_compound = (\<lambda>text. Inl LexiconError)\<rparr>"

text \<open>No provider key, and a lexicon engine that scores every text \<open>0.6\<close>.\<close>

definition lexicon_only :: environment where
  "lexicon_only =
     \<lparr>gemini_api_key = None,
      gemini_sentiment_reply = (\<lambda>text. Request_failed),
      gemini_insights_reply = (\<lambda>reviews product_name. Request_failed),
      vader_available = True,
      vader_compound = (\<lambda>text. Inr 0.6)\<rparr>"

section \<open>A row of an uploaded file (app.process\_file, the result object)\<close>

text \<open>
  \<open>'\n'.join(x)\<close> for a JSON value \<open>x\<close>: the strings of a list, the characters of a
  string or the keys of an object, with a newline between them; \<open>TypeError\<close> for a
  list with an element that is not a string and for a value that cannot be iterated.
\<close>

fun join_with :: "string \<Rightarrow> string list \<Rightarrow> string" where
  "join_with sep [] = []"
| "join_with sep [x] = x"
| "join_with sep (x # y # ys) = x @ sep @ join_with sep (y # ys)"

definition newline :: string where
  "newline = [char_of (10 :: nat)]"

fun str_items :: "json list \<Rightarrow> error + string list" where
  "str_items [] = Inr []"
| "str_items (JStr s # xs) = (case str_items xs of Inl e \<Rightarrow> Inl e | Inr ys \<Rightarrow> Inr (s # ys))"
| "str_items (x # xs) = Inl TypeError"

fun join_newline :: "json \<Rightarrow> error + string" where
  "join_newline (JArr xs) =
     (case str_items xs of Inl e \<Rightarrow> Inl e | Inr ys \<Rightarrow> Inr (join_with newline ys))"
| "join_newline (JStr s) = Inr (join_with newline (map (\<lambda>c. [c]) s))"
| "join_newline (JObj kvs) = Inr (join_with newline (map fst kvs))"
| "join_newline x = Inl TypeError"

text \<open>
  The result object that \<open>process_file\<close> builds for one row from the text and the
  verdict \<open>sentiment_result\<close> (the rating, product and date of the row are added to it
  afterwards).
\<close>

definition build_result :: "string \<Rightarrow> pydict \<Rightarrow> error + pydict" where
  "build_result text sentiment_result =
     (case map_of sentiment_result ''sentiment'' of
        None \<Rightarrow> Inl KeyError
      | Some sentiment \<Rightarrow>
          (case map_of sentiment_result ''score'' of
             None \<Rightarrow> Inl KeyError
           | Some score \<Rightarrow>
               (case join_newline (dict_get sentiment_result ''improvement_suggestions'' (JArr [])) of
                  Inl e \<Rightarrow> Inl e
                | Inr actionable_steps \<Rightarrow>
                    Inr [(''text'', JStr text),
                         (''sentiment'', sentiment),
                         (''score'', score),
                         (''confidence'', dict_get sentiment_result ''confidence'' (JNum 0.8)),
                         (''aspects'', dict_get sentiment_result ''aspects'' (JObj [])),
                         (''strengths'', dict_get sentiment_result ''strengths'' (JArr [])),
                         (''weaknesses'', dict_get sentiment_result ''weaknesses'' (JArr [])),
                         (''actionable_steps'', JStr actionable_steps)])))"

section \<open>Insight synthesis (sentiment\_service.generate\_actionable\_insights)\<close>

record actionable_insight =
  insight :: string
  action :: string
  priority :: string
  impact_area :: string

record insight_report =
  key_strengths :: "string list"
  key_weaknesses :: "string list"
  improvement_suggestions :: "string list"
  competitive_advantage :: string
  customer_satisfaction_summary :: string
  actionable_insights :: "actionable_insight list"

text \<open>
  What the synthesizer returns: a report of its own, or the dictionary \<open>json.loads\<close>
  made of the provider's answer, returned as it is.
\<close>

datatype insights =
    Report insight_report
  | Provider_report pydict

text \<open>The loop \<open>sentiment_counts[sentiment] = sentiment_counts.get(sentiment, 0) + 1\<close>.\<close>

fun count_sentiments :: "classified_review list \<Rightarrow> (string \<rightharpoonup> nat) \<Rightarrow> (string \<rightharpoonup> nat)" where
  "count_sentiments [] sentiment_counts = sentiment_counts"
| "count_sentiments (review # reviews) sentiment_counts =
     (let sentiment = (case cr_sentiment review of None \<Rightarrow> ''neutral'' | Some s \<Rightarrow> s)
      in count_sentiments reviews
           (sentiment_counts(sentiment \<mapsto>
              (case sentiment_counts sentiment of None \<Rightarrow> 0 | Some c \<Rightarrow> c) + 1)))"

definition positive_percentage :: "classified_review list \<Rightarrow> real" where
  "positive_percentage reviews =
     (let sentiment_counts =
            count_sentiments reviews
              [''positive'' \<mapsto> 0, ''neutral'' \<mapsto> 0, ''negative'' \<mapsto> 0];
          total_reviews = length reviews
      in if total_reviews > 0
         then (real (case sentiment_counts ''positive'' of None \<Rightarrow> 0 | Some c \<Rightarrow> c)
                 / real total_reviews) * 100
         else 0)"

text \<open>
  \<open>set_order\<close> stands for \<open>list(set(xs))\<close>: the distinct elements in the order of the
  running interpreter's hashing.
\<close>

definition generate_insights_basic ::
  "(string list \<Rightarrow> string list) \<Rightarrow> classified_review list \<Rightarrow> string \<Rightarrow> insight_report" where
  "generate_insights_basic set_order reviews product_name =
     (let percentage = positive_percentage reviews;
          all_strengths = concat (map cr_strengths reviews);
          all_weaknesses = concat (map cr_weaknesses reviews);
          strengths = take 5 (set_order all_strengths);
          weaknesses = take 5 (set_order all_weaknesses);
          suggestions = map (\<lambda>weakness. ''Address issue: '' @ weakness) (take 3 weaknesses);
          satisfaction =
            (if percentage \<ge> 70 then ''Customers are generally very satisfied with the product.''
             else if percentage \<ge> 50
             then ''Customers are moderately satisfied, but there are some areas for improvement.''
             else ''Customer satisfaction is low. Immediate attention to product issues is recommended.'');
          sentiment_entry =
            \<lparr>insight = ''Customer sentiment analysis'',
             action = ''Focus on '' @ (if percentage \<ge> 50 then ''maintaining positive aspects''
                                      else ''addressing negative feedback''),
             priority = (if percentage < 50 then ''high'' else ''medium''),
             impact_area = ''product''\<rparr>;
          strength_entry =
            (case strengths of
               [] \<Rightarrow> []
             | first # others \<Rightarrow>
                 [\<lparr>insight = ''Key strength: '' @ first,
                   action = ''Highlight this strength in marketing materials'',
                   priority = ''medium'',
                   impact_area = ''marketing''\<rparr>]);
          weakness_entry =
            (case weaknesses of
               [] \<Rightarrow> []
             | first # others \<Rightarrow>
                 [\<lparr>insight = ''Key weakness: '' @ first,
                   action = ''Develop improvement plan to address this issue'',
                   priority = ''high'',
                   impact_area = ''product development''\<rparr>])
      in \<lparr>key_strengths = strengths,
          key_weaknesses = weaknesses,
          improvement_suggestions = suggestions,
          competitive_advantage =
            (case strengths of [] \<Rightarrow> ''Not identified'' | first # others \<Rightarrow> first),
          customer_satisfaction_summary = satisfaction,
          actionable_insights = sentiment_entry # strength_entry @ weakness_entry\<rparr>)"

text \<open>
  The provider tier of the synthesizer sends one request, for the first 20 reviews; it
  answers with the provider's dictionary, or with the heuristic report when anything
  fails. Both functions return the number of requests sent to the provider beside the
  result.
\<close>

definition generate_insights_gemini ::
  "environment \<Rightarrow> (string list \<Rightarrow> string list) \<Rightarrow> classified_review list \<Rightarrow> string
     \<Rightarrow> nat \<times> insights" where
  "generate_insights_gemini env set_order reviews product_name =
     (case gemini_insights_reply env (take 20 reviews) product_name of
        Request_failed \<Rightarrow> (1, Report (generate_insights_basic set_order reviews product_name))
      | Json_object result \<Rightarrow> (1, Provider_report result))"

definition generate_actionable_insights ::
  "environment \<Rightarrow> (string list \<Rightarrow> string list) \<Rightarrow> classified_review list \<Rightarrow> string
     \<Rightarrow> nat \<times> insights" where
  "generate_actionable_insights env set_order reviews product_name =
     (if reviews = []
      then (0, Report \<lparr>key_strengths = [],
                       key_weaknesses = [],
                       improvement_suggestions = [],
                       competitive_advantage = ''Not enough data'',
                       customer_satisfaction_summary = ''Not enough data'',
                       actionable_insights = []\<rparr>)
      else if key_set env then generate_insights_gemini env set_order reviews product_name
      else (0, Report (generate_insights_basic set_order reviews product_name)))"

text \<open>A batch of two reviews, both classified positive.\<close>

definition two_happy :: "classified_review list" where
  "two_happy =
     [\<lparr>cr_sentiment = Some ''positive'', cr_strengths = [''Great value''], cr_weaknesses = []\<rparr>,
      \<lparr>cr_sentiment = Some ''positive'', cr_strengths = [], cr_weaknesses = []\<rparr>]"

section \<open>Schema inference (app.process\_file, the text column)\<close>

text \<open>
  A column of the data frame: its name, whether its dtype is \<open>object\<close>, and its cells as
  \<open>str\<close> renders them. A table is the list of its columns in order.
\<close>

record column =
  col_name :: string
  col_is_object :: bool
  col_cells :: "string list"

type_synonym table = "column list"

definition columns :: "table \<Rightarrow> string list" where
  "columns df = map col_name df"

text \<open>\<open>df[name]\<close>.\<close>

definition get_column :: "table \<Rightarrow> string \<Rightarrow> column option" where
  "get_column df name = find (\<lambda>c. col_name c = name) df"

definition cells_of :: "table \<Rightarrow> string \<Rightarrow> string list" where
  "cells_of df name = (case get_column df name of None \<Rightarrow> [] | Some c \<Rightarrow> col_cells c)"

text \<open>
  The known wide format: with \<open>product_name\<close>, \<open>review_text\<close> and \<open>rating\<close> all
  present and no \<open>text\<close> column, \<open>df['text'] = df['review_text']\<close> appends a copy.
\<close>

definition prepare_amazon :: "table \<Rightarrow> table" where
  "prepare_amazon df =
     (if list_all (\<lambda>col. col \<in> set (columns df)) [''product_name'', ''review_text'', ''rating'']
      then (if ''review_text'' \<in> set (columns df) \<and> ''text'' \<notin> set (columns df)
            then (case get_column df ''review_text'' of
                    None \<Rightarrow> df
                  | Some c \<Rightarrow> df @ [c\<lparr>col_name := ''text''\<rparr>])
            else df)
      else df)"

text \<open>
  \<open>df[col].astype(str).str.len().mean() > 10\<close>; the mean of no rows is not a number and
  the comparison is false.
\<close>

definition mean_length_over_10 :: "string list \<Rightarrow> bool" where
  "mean_length_over_10 cells =
     (cells \<noteq> [] \<and> real (sum_list (map length cells)) / real (length cells) > 10)"

definition find_text_column :: "table \<Rightarrow> string option" where
  "find_text_column df =
     (if ''text'' \<in> set (columns df) then Some ''text''
      else if ''review_text'' \<in> set (columns df) then Some ''review_text''
      else if ''comment'' \<in> set (columns df) then Some ''comment''
      else if ''feedback'' \<in> set (columns df) then Some ''feedback''
      else (case find (\<lambda>c. col_is_object c \<and> mean_length_over_10 (col_cells c)) df of
              None \<Rightarrow> None
            | Some c \<Rightarrow> Some (col_name c)))"

datatype upload_error = No_suitable_text_column

text \<open>
  The text column of an uploaded table and the texts of its rows, or the error that ends
  the upload; \<open>if not text_column\<close> also refuses a column whose name is empty.
\<close>

definition resolve_text_column :: "table \<Rightarrow> upload_error + string \<times> string list" where
  "resolve_text_column df0 =
     (let df = prepare_amazon df0 in
      case find_text_column df of
        None \<Rightarrow> Inl No_suitable_text_column
      | Some text_column \<Rightarrow>
          (if text_column = [] then Inl No_suitable_text_column
           else Inr (text_column, cells_of df text_column)))"

text \<open>An uploaded table with the columns \<open>review_text\<close>, \<open>rating\<close> and \<open>product_name\<close>.\<close>

definition amazon_upload :: table where
  "amazon_upload =
     [\<lparr>col_name = ''review_text'', col_is_object = True,
       col_cells = [''Works well and looks good'', ''Broke after a week'']\<rparr>,
      \<lparr>col_name = ''rating'', col_is_object = False, col_cells = [''5'', ''1'']\<rparr>,
      \<lparr>col_name = ''product_name'', col_is_object = True, col_cells = [''Kettle'', ''Kettle'']\<rparr>]"

section \<open>Review ingestion (scraper\_service.scrape\_amazon\_reviews\_api)\<close>

text \<open>
  An item of a fetched page as \<open>review.get\<close> reads it, a missing field standing as its
  default; \<open>raw_rating\<close> is \<open>None\<close> when \<open>float\<close> cannot convert the rating and raises.
\<close>

record raw_review =
  raw_id :: string
  raw_title :: string
  raw_text :: string
  raw_rating :: "real option"
  raw_username :: string
  raw_date_text :: string
  raw_verified :: bool
  raw_helpful_votes :: int

text \<open>A review record; \<open>review_text\<close> is its key \<open>text\<close>.\<close>

record review =
  review_id :: string
  title :: string
  review_text :: string
  rating :: real
  reviewer_name :: string
  review_date_text :: string
  review_date :: string
  verified_purchase :: bool
  helpful_votes :: int

datatype star_filter = Stars nat | All_stars

text \<open>
  A page request ends in an exception (\<open>Fetch_failed\<close>) or gives the list
  \<open>data["data"]["reviews"]\<close>, empty when the key is missing.
\<close>

datatype page_reply = Fetch_failed | Page "raw_review list"

record calendar_date =
  year :: nat
  month :: nat
  day :: nat

text \<open>The random draws of one iteration of the placeholder generator.\<close>

record mock_draw =
  drawn_rating :: nat
  drawn_text :: nat
  drawn_days_ago :: nat
  drawn_verified :: bool
  drawn_helpful_votes :: int

text \<open>
  What a run reads from outside: the key, the source queried by sort order, star filter
  and page number, the clock (\<open>datetime.now()\<close> as a date and in ISO form), the outcome of
  parsing a date text against the known formats, and the random draws of the \<open>i\<close>-th
  placeholder.
\<close>

record source =
  api_key :: "string option"
  fetch_page :: "string \<Rightarrow> star_filter \<Rightarrow> nat \<Rightarrow> page_reply"
  today :: calendar_date
  now_iso :: string
  parse_date :: "string \<Rightarrow> string option"
  draws :: "nat \<Rightarrow> mock_draw"

definition process_review :: "source \<Rightarrow> raw_review \<Rightarrow> error + review" where
  "process_review src raw =
     (case raw_rating raw of
        None \<Rightarrow> Inl ValueError
      | Some r \<Rightarrow>
          Inr \<lparr>review_id = raw_id raw,
               title = raw_title raw,
               review_text = raw_text raw,
               rating = r,
               reviewer_name = raw_username raw,
               review_date_text = raw_date_text raw,
               review_date =
                 (if raw_date_text raw = [] then now_iso src
                  else (case parse_date src (raw_date_text raw) of
                          None \<Rightarrow> now_iso src
                        | Some parsed \<Rightarrow> parsed)),
               verified_purchase = raw_verified raw,
               helpful_votes = raw_helpful_votes raw\<rparr>)"

subsection \<open>The first pass: the rating buckets\<close>

text \<open>
  The loop over the items of one page. It returns whether an exception ended it, the
  accumulated list and the count for this rating.
\<close>

fun collect_for_rating ::
  "source \<Rightarrow> int \<Rightarrow> raw_review list \<Rightarrow> review list \<times> nat \<Rightarrow> bool \<times> review list \<times> nat" where
  "collect_for_rating src reviews_per_rating [] (all_reviews, reviews_for_this_rating) =
     (False, all_reviews, reviews_for_this_rating)"
| "collect_for_rating src reviews_per_rating (raw # rest) (all_reviews, reviews_for_this_rating) =
     (if int reviews_for_this_rating \<ge> reviews_per_rating
      then (False, all_reviews, reviews_for_this_rating)
      else (case process_review src raw of
              Inl e \<Rightarrow> (True, all_reviews, reviews_for_this_rating)
            | Inr processed_review \<Rightarrow>
                collect_for_rating src reviews_per_rating rest
                  (all_reviews @ [processed_review], reviews_for_this_rating + 1)))"

fun rating_pages ::
  "source \<Rightarrow> nat \<Rightarrow> int \<Rightarrow> nat list \<Rightarrow> review list \<times> nat \<Rightarrow> review list \<times> nat" where
  "rating_pages src star_rating reviews_per_rating [] state = state"
| "rating_pages src star_rating reviews_per_rating (page # pages) (all_reviews, reviews_for_this_rating) =
     (if int reviews_for_this_rating \<ge> reviews_per_rating
      then (all_reviews, reviews_for_this_rating)
      else (case fetch_page src ''TOP_REVIEWS'' (Stars star_rating) page of
              Fetch_failed \<Rightarrow> (all_reviews, reviews_for_this_rating)
            | Page reviews \<Rightarrow>
                (if reviews = [] then (all_reviews, reviews_for_this_rating)
                 else (case collect_for_rating src reviews_per_rating reviews
                              (all_reviews, reviews_for_this_rating) of
                         (True, state) \<Rightarrow> state
                       | (False, state) \<Rightarrow>
                           rating_pages src star_rating reviews_per_rating pages state))))"

definition first_pass :: "source \<Rightarrow> int \<Rightarrow> review list" where
  "first_pass src num_reviews =
     (let star_ratings = [5, 4, 3, 2, 1];
          reviews_per_rating = num_reviews div int (length star_ratings)
      in foldl (\<lambda>all_reviews star_rating.
                  fst (rating_pages src star_rating reviews_per_rating [1, 2] (all_reviews, 0)))
           [] star_ratings)"

subsection \<open>The second pass: the sort strategies\<close>

text \<open>
  The loop over the items of one page: an item whose id is the \<open>review_id\<close> of an
  accumulated review is skipped (\<open>continue\<close>). It returns whether an exception ended it,
  and the accumulated list.
\<close>

fun add_new_reviews ::
  "source \<Rightarrow> int \<Rightarrow> raw_review list \<Rightarrow> review list \<Rightarrow> bool \<times> review list" where
  "add_new_reviews src num_reviews [] all_reviews = (False, all_reviews)"
| "add_new_reviews src num_reviews (raw # rest) all_reviews =
     (if list_ex (\<lambda>r. review_id r = raw_id raw) all_reviews
      then add_new_reviews src num_reviews rest all_reviews
      else (case process_review src raw of
              Inl e \<Rightarrow> (True, all_reviews)
            | Inr processed_review \<Rightarrow>
                (if int (length (all_reviews @ [processed_review])) \<ge> num_reviews
                 then (False, all_reviews @ [processed_review])
                 else add_new_reviews src num_reviews rest (all_reviews @ [processed_review]))))"

fun sort_pages :: "source \<Rightarrow> int \<Rightarrow> string \<Rightarrow> nat list \<Rightarrow> review list \<Rightarrow> review list" where
  "sort_pages src num_reviews sort_by [] all_reviews = all_reviews"
| "sort_pages src num_reviews sort_by (page # pages) all_reviews =
     (if int (length all_reviews) \<ge> num_reviews then all_reviews
      else (case fetch_page src sort_by All_stars page of
              Fetch_failed \<Rightarrow> all_reviews
            | Page reviews \<Rightarrow>
                (if reviews = [] then all_reviews
                 else (case add_new_reviews src num_reviews reviews all_reviews of
                         (True, all_reviews') \<Rightarrow> all_reviews'
                       | (False, all_reviews') \<Rightarrow>
                           sort_pages src num_reviews sort_by pages all_reviews'))))"

fun sort_strategies :: "source \<Rightarrow> int \<Rightarrow> string list \<Rightarrow> review list \<Rightarrow> review list" where
  "sort_strategies src num_reviews [] all_reviews = all_reviews"
| "sort_strategies src num_reviews (sort_by # sort_by_options) all_reviews =
     (if int (length all_reviews) \<ge> num_reviews then all_reviews
      else sort_strategies src num_reviews sort_by_options
             (sort_pages src num_reviews sort_by [1, 2] all_reviews))"

definition second_pass :: "source \<Rightarrow> int \<Rightarrow> review list \<Rightarrow> review list" where
  "second_pass src num_reviews all_reviews =
     (if int (length all_reviews) < num_reviews
      then sort_strategies src num_reviews [''MOST_RECENT'', ''TOP_REVIEWS''] all_reviews
      else all_reviews)"

subsection \<open>The placeholder records (scraper\_service.mock\_amazon\_reviews)\<close>

definition positive_texts :: "string list" where
  "positive_texts =
     [''This product is amazing! I love how easy it is to use and the quality is excellent.'',
      ''I've been using this for a month now and it's holding up well. Very satisfied with my purchase.'',
      ''Great value for the price. Would definitely recommend to friends and family.'',
      ''The customer service was excellent when I had an issue. They resolved it quickly.'',
      ''This exceeded my expectations. The design is beautiful and it works perfectly.'']"

definition neutral_texts :: "string list" where
  "neutral_texts =
     [''It's an average product. Nothing special but it works as advertised.'',
      ''The product is good but the shipping took forever. Almost a month to arrive.'',
      ''It's okay for the price. Not the best quality but it gets the job done.'',
      ''Some features are great, others not so much. Overall it's decent.'',
      ''It works fine but the instructions were confusing. Had to look up a tutorial online.'']"

definition negative_texts :: "string list" where
  "negative_texts =
     [''I'm disappointed with this purchase. It broke after just two weeks of use.'',
      ''This is the worst product I've ever bought. Complete waste of money.'',
      ''The quality is terrible. Definitely not worth the price.'',
      ''It doesn't work as advertised. Very misleading product description.'',
      ''Had to return it. Didn't meet my expectations at all.'']"

text \<open>\<open>str(n)\<close> for a natural number, and a number on at least \<open>w\<close> digits.\<close>

fun str_nat :: "nat \<Rightarrow> string" where
  "str_nat n =
     (if n < 10 then [''0123456789'' ! n]
      else str_nat (n div 10) @ [''0123456789'' ! (n mod 10)])"

declare str_nat.simps [simp del]

definition zero_padded :: "nat \<Rightarrow> nat \<Rightarrow> string" where
  "zero_padded w n = replicate (w - length (str_nat n)) CHR ''0'' @ str_nat n"

definition month_names :: "string list" where
  "month_names =
     [''January'', ''February'', ''March'', ''April'', ''May'', ''June'', ''July'', ''August'',
      ''September'', ''October'', ''November'', ''December'']"

text \<open>\<open>strftime("%B %d, %Y")\<close> and \<open>isoformat()\<close> of a date at midnight.\<close>

definition strftime_long :: "calendar_date \<Rightarrow> string" where
  "strftime_long d =
     month_names ! (month d - 1) @ '' '' @ zero_padded 2 (day d) @ '', '' @ zero_padded 4 (year d)"

definition isoformat :: "calendar_date \<Rightarrow> string" where
  "isoformat d =
     zero_padded 4 (year d) @ ''-'' @ zero_padded 2 (month d) @ ''-'' @ zero_padded 2 (day d)
       @ ''T00:00:00''"

text \<open>\<open>random.choice(xs)\<close> with the drawn index.\<close>

definition choice :: "'a list \<Rightarrow> nat \<Rightarrow> 'a" where
  "choice xs k = xs ! (k mod length xs)"

text \<open>
  One iteration of the generator. \<open>review_date.replace(day=review_date.day - days_ago)\<close>
  raises \<open>ValueError\<close> for a day below 1; a day it accepts is below today's, so it is a
  day of the month.
\<close>

definition mock_review :: "source \<Rightarrow> string \<Rightarrow> nat \<Rightarrow> error + review" where
  "mock_review src asin i =
     (let d = draws src i;
          text =
            (if drawn_rating d \<ge> 4 then choice positive_texts (drawn_text d)
             else if drawn_rating d = 3 then choice neutral_texts (drawn_text d)
             else choice negative_texts (drawn_text d));
          days_ago = drawn_days_ago d
      in if int (day (today src)) - int days_ago < 1 then Inl ValueError
         else (let date = (today src)\<lparr>day := day (today src) - days_ago\<rparr>
               in Inr \<lparr>review_id = ''mock_'' @ asin @ ''_'' @ str_nat i,
                       title = ''Review for '' @ asin,
                       review_text = text,
                       rating = real (drawn_rating d),
                       reviewer_name = ''MockUser'' @ str_nat i,
                       review_date_text = strftime_long date,
                       review_date = isoformat date,
                       verified_purchase = drawn_verified d,
                       helpful_votes = drawn_helpful_votes d\<rparr>))"

fun mock_loop :: "source \<Rightarrow> string \<Rightarrow> nat list \<Rightarrow> error + review list" where
  "mock_loop src asin [] = Inr []"
| "mock_loop src asin (i # rest) =
     (case mock_review src asin i of
        Inl e \<Rightarrow> Inl e
      | Inr r \<Rightarrow> (case mock_loop src asin rest of Inl e \<Rightarrow> Inl e | Inr rs \<Rightarrow> Inr (r # rs)))"

definition mock_amazon_reviews :: "source \<Rightarrow> string \<Rightarrow> int \<Rightarrow> error + review list" where
  "mock_amazon_reviews src asin num_reviews = mock_loop src asin [0 ..< nat num_reviews]"

subsection \<open>The coordinator\<close>

text \<open>
  The list of reviews that \<open>scrape_amazon_reviews_api\<close> returns beside the product
  information, or the exception that leaves it: the call of \<open>mock_amazon_reviews\<close> is
  not inside a \<open>try\<close>.
\<close>

definition scrape_amazon_reviews_api :: "source \<Rightarrow> string \<Rightarrow> int \<Rightarrow> error + review list" where
  "scrape_amazon_reviews_api src asin num_reviews =
     (if (case api_key src of None \<Rightarrow> True | Some k \<Rightarrow> k = [])
      then mock_amazon_reviews src asin num_reviews
      else (let all_reviews = second_pass src num_reviews (first_pass src num_reviews)
            in if int (length all_reviews) < num_reviews
               then (case mock_amazon_reviews src asin (num_reviews - int (length all_reviews)) of
                       Inl e \<Rightarrow> Inl e
                     | Inr mock_reviews \<Rightarrow> Inr (all_reviews @ mock_reviews))
               else Inr all_reviews))"

text \<open>
  A placeholder record: its \<open>review_id\<close> starts with \<open>mock_\<close> and the product id, which
  tells it from a real one, and its text is one of the templates.
\<close>

definition is_mock :: "string \<Rightarrow> review \<Rightarrow> bool" where
  "is_mock asin r =
     (is_prefix (''mock_'' @ asin @ ''_'') (review_id r)
      \<and> review_text r \<in> set (positive_texts @ neutral_texts @ negative_texts))"

text \<open>
  A source that has a key and returns no item on any page, on the 6th of November 2026,
  every draw being 200 days ago.
\<close>

definition empty_source :: source where
  "empty_source =
     \<lparr>api_key = Some ''key'',
      fetch_page = (\<lambda>sort_by star page. Page []),
      today = \<lparr>year = 2026, month = 11, day = 6\<rparr>,
      now_iso = ''2026-11-06T09:30:00'',
      parse_date = (\<lambda>date_text. None),
      draws = (\<lambda>i. \<lparr>drawn_rating = 5, drawn_text = 0, drawn_days_ago = 200,
                     drawn_verified = True, drawn_helpful_votes = 3\<rparr>)\<rparr>"

text \<open>
  A source whose five-star page and whose most-recent page both hold the item \<open>R1\<close>, the
  most-recent page holding the item \<open>R2\<close> after it.
\<close>

definition item_a :: raw_review where
  "item_a = \<lparr>raw_id = ''R1'', raw_title = ''Solid'', raw_text = ''Solid build, works well'',
     raw_rating = Some 5, raw_username = ''Ann'', raw_date_text = [],
     raw_verified = True, raw_helpful_votes = 2\<rparr>"

definition item_b :: raw_review where
  "item_b = \<lparr>raw_id = ''R2'', raw_title = ''Slow'', raw_text = ''Slow delivery, poor packaging'',
     raw_rating = Some 2, raw_username = ''Bob'', raw_date_text = [],
     raw_verified = False, raw_helpful_votes = 0\<rparr>"

definition overlapping_source :: source where
  "overlapping_source =
     \<lparr>api_key = Some ''key'',
      fetch_page = (\<lambda>sort_by star page.
         if star = Stars 5 \<and> page = 1 then Page [item_a]
         else if star = All_stars \<and> sort_by = ''MOST_RECENT'' \<and> page = 1 then Page [item_a, item_b]
         else Page []),
      today = \<lparr>year = 2026, month = 11, day = 6\<rparr>,
      now_iso = ''2026-11-06T09:30:00'',
      parse_date = (\<lambda>date_text. None),
      draws = (\<lambda>i. \<lparr>drawn_rating = 5, drawn_text = 0, drawn_days_ago = 1,
                     drawn_verified = True, drawn_helpful_votes = 3\<rparr>)\<rparr>"

section \<open>The wording of the claims, for comparison\<close>

text \<open>
  The new list is the old one followed by items whose ids are not ids of the old list and
  differ from each other.
\<close>

definition extends_fresh :: "review list \<Rightarrow> review list \<Rightarrow> bool" where
  "extends_fresh old new \<longleftrightarrow>
     (\<exists>extra. new = old @ extra
        \<and> (\<forall>r \<in> set extra. review_id r \<notin> review_id ` set old)
        \<and> distinct (map review_id extra))"

text \<open>
  "Counts occurrences of the keyword set in the lowercased text", read word for word: the
  number of places of the text at which a keyword of the set starts.
\<close>

primrec spec_occurrences :: "string \<Rightarrow> string \<Rightarrow> nat" where
  "spec_occurrences w [] = (if w = [] then 1 else 0)"
| "spec_occurrences w (c # t) = (if is_prefix w (c # t) then 1 else 0) + spec_occurrences w t"

definition spec_occurrence_count :: "string list \<Rightarrow> string \<Rightarrow> nat" where
  "spec_occurrence_count words text_lower = sum_list (map (\<lambda>word. spec_occurrences word text_lower) words)"

text \<open>"The keyword occurs as a case-insensitive substring of the text".\<close>

definition contains_ci :: "string \<Rightarrow> string \<Rightarrow> bool" where
  "contains_ci keyword text = str_in (lower keyword) (lower text)"

section \<open>Basic facts\<close>

lemma is_prefix_iff: "is_prefix w t \<longleftrightarrow> (\<exists>s. t = w @ s)"
  by (induction w t rule: is_prefix.induct) auto

lemma str_in_iff: "str_in w t \<longleftrightarrow> (\<exists>p s. t = p @ w @ s)"
proof (induction t)
  case Nil
  then show ?case by auto
next
  case (Cons c t)
  show ?case
  proof
    assume "str_in w (c # t)"
    then consider "is_prefix w (c # t)" | "str_in w t" by auto
    then show "\<exists>p s. c # t = p @ w @ s"
    proof cases
      case 1
      then obtain s where "c # t = w @ s" by (auto simp: is_prefix_iff)
      then have "c # t = [] @ w @ s" by simp
      then show ?thesis by blast
    next
      case 2
      then obtain p s where "t = p @ w @ s" using Cons.IH by blast
      then have "c # t = (c # p) @ w @ s" by simp
      then show ?thesis by blast
    qed
  next
    assume "\<exists>p s. c # t = p @ w @ s"
    then obtain p s where eq: "c # t = p @ w @ s" by blast
    show "str_in w (c # t)"
    proof (cases p)
      case Nil
      with eq have "is_prefix w (c # t)" by (auto simp: is_prefix_iff)
      then show ?thesis by simp
    next
      case (Cons d p')
      with eq have "t = p' @ w @ s" by simp
      then have "str_in w t" using Cons.IH by blast
      then show ?thesis by simp
    qed
  qed
qed

lemma keyword_count_length:
  "keyword_count words t = length (filter (\<lambda>word. str_in word t) words)"
  unfolding keyword_count_def by (induction words) simp_all

lemma any_in_iff: "any_in ks t \<longleftrightarrow> (\<exists>k\<in>set ks. str_in k t)"
  by (simp add: any_in_def list_ex_iff)

lemma aspect_keywords_are_lower:
  "list_all (\<lambda>(a, kws). list_all (\<lambda>k. lower k = k) kws) aspect_keywords"
  by code_simp

lemma aspect_keyword_lower:
  assumes "(a, kws) \<in> set aspect_keywords" and "k \<in> set kws"
  shows "lower k = k"
  using aspect_keywords_are_lower assms by (fastforce simp: list_all_iff)

lemma in_extract_aspects_iff:
  "(a, s, sc) \<in> set (extract_aspects_basic text overall) \<longleftrightarrow>
     (\<exists>kws. (a, kws) \<in> set aspect_keywords \<and> any_in kws (lower text))
       \<and> s = overall \<and> sc = aspect_score overall"
  by (auto simp: extract_aspects_basic_def Let_def)

lemma basic_sentiment:
  "sentiment_of (analyze_sentiment_basic text) =
     Some (JStr (fst (basic_decision (positive_count text) (negative_count text))))"
  by (simp add: sentiment_of_def analyze_sentiment_basic_def Let_def split: prod.splits)

lemma basic_score:
  "score_of (analyze_sentiment_basic text) =
     Some (JNum (snd (basic_decision (positive_count text) (negative_count text))))"
  by (simp add: score_of_def analyze_sentiment_basic_def Let_def split: prod.splits)

lemma basic_decision_mono:
  "p1 \<le> p2 \<Longrightarrow> snd (basic_decision p1 n) \<le> snd (basic_decision p2 n)"
  by (auto simp: basic_decision_def min_def field_simps)

lemma basic_decision_range:
  "0 \<le> snd (basic_decision p n) \<and> snd (basic_decision p n) \<le> 1"
  by (auto simp: basic_decision_def min_def field_simps)

lemma basic_decision_label:
  "fst (basic_decision p n) \<in> {''positive'', ''neutral'', ''negative''}"
  by (simp add: basic_decision_def)

section \<open>The keyword tier\<close>

text \<open>
  C2 (as amended). For every text, with \<open>pos\<close> and \<open>neg\<close> the numbers of keywords of the
  positive and of the negative set that are substrings of the lowercased text (a keyword
  counts once, however often it occurs): the sentiment is positive with score
  \<open>0.5 + min(0.5, (pos - neg)/10)\<close> when \<open>pos > neg\<close>, negative with score
  \<open>0.5 - min(0.5, (neg - pos)/10)\<close> when \<open>neg > pos\<close>, and neutral with score \<open>0.5\<close> on a
  tie.
\<close>

theorem keyword_tier_decision:
  fixes t :: string
  defines "pos \<equiv> length (filter (\<lambda>word. str_in word (lower t)) positive_words)"
    and "neg \<equiv> length (filter (\<lambda>word. str_in word (lower t)) negative_words)"
  shows "(pos > neg \<longrightarrow>
            sentiment_of (analyze_sentiment_basic t) = Some (JStr ''positive'') \<and>
            score_of (analyze_sentiment_basic t) =
              Some (JNum (0.5 + min 0.5 ((real pos - real neg) / 10))))
       \<and> (neg > pos \<longrightarrow>
            sentiment_of (analyze_sentiment_basic t) = Some (JStr ''negative'') \<and>
            score_of (analyze_sentiment_basic t) =
              Some (JNum (0.5 - min 0.5 ((real neg - real pos) / 10))))
       \<and> (pos = neg \<longrightarrow>
            sentiment_of (analyze_sentiment_basic t) = Some (JStr ''neutral'') \<and>
            score_of (analyze_sentiment_basic t) = Some (JNum 0.5))"
proof -
  have p: "positive_count t = pos"
    by (simp add: positive_count_def keyword_count_length pos_def)
  have n: "negative_count t = neg"
    by (simp add: negative_count_def keyword_count_length neg_def)
  show ?thesis
    unfolding basic_sentiment basic_score p n
    by (auto simp: basic_decision_def of_nat_diff)
qed

theorem keyword_tier_decision_witness:
  "sentiment_of (analyze_sentiment_basic ''Good, really GOOD and great'') = Some (JStr ''positive'')
   \<and> score_of (analyze_sentiment_basic ''Good, really GOOD and great'') = Some (JNum 0.7)"
proof -
  have p: "length (filter (\<lambda>word. str_in word (lower ''Good, really GOOD and great'')) positive_words) = 2"
    by code_simp
  have n: "length (filter (\<lambda>word. str_in word (lower ''Good, really GOOD and great'')) negative_words) = 0"
    by code_simp
  show ?thesis
    using keyword_tier_decision [of "''Good, really GOOD and great''"] unfolding p n by simp
qed

text \<open>
  C2 as stated fails: in \<open>good good\<close> a positive keyword occurs twice and no negative one,
  so counting occurrences gives the score \<open>0.5 + 2/10\<close>; the tier counts the keyword once
  and returns \<open>0.6\<close>.
\<close>

theorem keyword_tier_occurrences_counterexample:
  "spec_occurrence_count positive_words (lower ''good good'') = 2
   \<and> spec_occurrence_count negative_words (lower ''good good'') = 0
   \<and> score_of (analyze_sentiment_basic ''good good'') = Some (JNum 0.6)
   \<and> score_of (analyze_sentiment_basic ''good good'')
       \<noteq> Some (JNum (0.5 + min 0.5 (real (spec_occurrence_count positive_words (lower ''good good'')
             - spec_occurrence_count negative_words (lower ''good good'')) / 10)))"
proof -
  have p: "spec_occurrence_count positive_words (lower ''good good'') = 2"
    by code_simp
  have n: "spec_occurrence_count negative_words (lower ''good good'') = 0"
    by code_simp
  have "positive_count ''good good'' = 1" and "negative_count ''good good'' = 0"
    by code_simp+
  then have s: "score_of (analyze_sentiment_basic ''good good'') = Some (JNum 0.6)"
    unfolding basic_score by (simp add: basic_decision_def)
  show ?thesis unfolding p n s by simp
qed

text \<open>
  C7. For two texts such that the tier's count of positive keywords of the second is at
  least that of the first and the counts of negative keywords are the same, the score of
  the second is at least the score of the first.
\<close>

theorem keyword_tier_monotone:
  assumes "positive_count t1 \<le> positive_count t2"
    and "negative_count t1 = negative_count t2"
  shows "\<exists>s1 s2. score_of (analyze_sentiment_basic t1) = Some (JNum s1)
           \<and> score_of (analyze_sentiment_basic t2) = Some (JNum s2) \<and> s1 \<le> s2"
  unfolding basic_score using assms basic_decision_mono by simp

theorem keyword_tier_monotone_witness:
  "positive_count ''good but broken'' \<le> positive_count ''good, great but broken''
   \<and> negative_count ''good but broken'' = negative_count ''good, great but broken''
   \<and> (\<exists>s1 s2. score_of (analyze_sentiment_basic ''good but broken'') = Some (JNum s1)
           \<and> score_of (analyze_sentiment_basic ''good, great but broken'') = Some (JNum s2)
           \<and> s1 \<le> s2)"
proof -
  have p: "positive_count ''good but broken'' \<le> positive_count ''good, great but broken''"
    by code_simp
  have n: "negative_count ''good but broken'' = negative_count ''good, great but broken''"
    by code_simp
  from keyword_tier_monotone [OF p n] p n show ?thesis by simp
qed

text \<open>
  C10. For every text the keyword tier's verdict agrees in sign: the score is above
  \<open>0.5\<close> exactly when the sentiment is positive, below \<open>0.5\<close> exactly when it is negative,
  and \<open>0.5\<close> exactly when it is neutral.
\<close>

theorem keyword_tier_sign_agreement:
  "\<exists>s l. score_of (analyze_sentiment_basic text) = Some (JNum s)
     \<and> sentiment_of (analyze_sentiment_basic text) = Some (JStr l)
     \<and> (s > 0.5 \<longleftrightarrow> l = ''positive'')
     \<and> (s < 0.5 \<longleftrightarrow> l = ''negative'')
     \<and> (s = 0.5 \<longleftrightarrow> l = ''neutral'')"
  unfolding basic_sentiment basic_score
  by (auto simp: basic_decision_def min_def field_simps)

section \<open>The aspect extractor\<close>

text \<open>
  C9. The vocabulary has the seven aspects quality, price, performance, design, usability,
  customer service and delivery. For every text and every overall sentiment, an aspect is
  emitted if and only if it is an aspect of the vocabulary one of whose keywords occurs in
  the text as a case-insensitive substring; every emitted aspect carries the overall
  sentiment as it is, and the score \<open>0.7\<close> for positive, \<open>0.3\<close> for negative and \<open>0.5\<close> for
  neutral.
\<close>

theorem aspect_extractor_presence:
  "map fst aspect_keywords =
     [''quality'', ''price'', ''performance'', ''design'', ''usability'', ''customer service'',
      ''delivery'']
   \<and> ((\<exists>s sc. (a, s, sc) \<in> set (extract_aspects_basic text overall)) \<longleftrightarrow>
        (\<exists>kws. (a, kws) \<in> set aspect_keywords \<and> (\<exists>k\<in>set kws. contains_ci k text)))
   \<and> (\<forall>s sc. (a, s, sc) \<in> set (extract_aspects_basic text overall) \<longrightarrow>
          s = overall \<and> sc = aspect_score overall)
   \<and> aspect_score ''positive'' = 0.7 \<and> aspect_score ''negative'' = 0.3
   \<and> aspect_score ''neutral'' = 0.5"
proof -
  have vocabulary: "map fst aspect_keywords =
     [''quality'', ''price'', ''performance'', ''design'', ''usability'', ''customer service'',
      ''delivery'']"
    by (simp add: aspect_keywords_def)
  have ci: "any_in kws (lower text) \<longleftrightarrow> (\<exists>k\<in>set kws. contains_ci k text)"
    if "(a, kws) \<in> set aspect_keywords" for kws
    using aspect_keyword_lower [OF that] by (auto simp: any_in_iff contains_ci_def)
  have emitted: "(\<exists>s sc. (a, s, sc) \<in> set (extract_aspects_basic text overall)) \<longleftrightarrow>
        (\<exists>kws. (a, kws) \<in> set aspect_keywords \<and> (\<exists>k\<in>set kws. contains_ci k text))"
    unfolding in_extract_aspects_iff using ci by blast
  have inherited: "\<forall>s sc. (a, s, sc) \<in> set (extract_aspects_basic text overall) \<longrightarrow>
          s = overall \<and> sc = aspect_score overall"
    unfolding in_extract_aspects_iff by blast
  have scores: "aspect_score ''positive'' = 0.7 \<and> aspect_score ''negative'' = 0.3
      \<and> aspect_score ''neutral'' = 0.5"
    by (simp add: aspect_score_def)
  from vocabulary emitted inherited scores show ?thesis by blast
qed

theorem aspect_extractor_presence_witness:
  "(''quality'', [''quality'', ''build'', ''construction'', ''durability'', ''sturdy'', ''solid''])
      \<in> set aspect_keywords
   \<and> contains_ci ''quality'' ''Great QUALITY''
   \<and> (\<exists>s sc. (''quality'', s, sc) \<in> set (extract_aspects_basic ''Great QUALITY'' ''positive'')
          \<and> s = ''positive'' \<and> sc = 0.7)"
proof -
  have kw: "(''quality'', [''quality'', ''build'', ''construction'', ''durability'', ''sturdy'',
      ''solid'']) \<in> set aspect_keywords"
    by (simp add: aspect_keywords_def)
  have ci: "contains_ci ''quality'' ''Great QUALITY''"
    by code_simp
  note inst = aspect_extractor_presence [of "''quality''" "''Great QUALITY''" "''positive''"]
  from inst kw ci
  have "\<exists>s sc. (''quality'', s, sc) \<in> set (extract_aspects_basic ''Great QUALITY'' ''positive'')"
    by fastforce
  then obtain s sc
    where m: "(''quality'', s, sc) \<in> set (extract_aspects_basic ''Great QUALITY'' ''positive'')"
    by blast
  from inst have inherited: "\<forall>s sc.
      (''quality'', s, sc) \<in> set (extract_aspects_basic ''Great QUALITY'' ''positive'') \<longrightarrow>
        s = ''positive'' \<and> sc = aspect_score ''positive''"
    by blast
  from inst have "aspect_score ''positive'' = 0.7" by blast
  with inherited m have "s = ''positive'' \<and> sc = 0.7" by metis
  with m kw ci show ?thesis by blast
qed

section \<open>The cascade\<close>

lemma basic_returns: "\<exists>v. analyze_sentiment_basic text = Inr v"
  by (simp add: analyze_sentiment_basic_def Let_def split: prod.splits)

lemma basic_valid: "valid_verdict (analyze_sentiment_basic text)"
proof -
  have "fst (basic_decision (positive_count text) (negative_count text))
      \<in> {''positive'', ''neutral'', ''negative''}"
    by (rule basic_decision_label)
  moreover note basic_decision_range [of "positive_count text" "negative_count text"]
  ultimately show ?thesis
    by (simp add: valid_verdict_def analyze_sentiment_basic_def Let_def split_beta)
qed

lemma basic_no_confidence: "confidence_of (analyze_sentiment_basic text) = None"
  by (simp add: confidence_of_def analyze_sentiment_basic_def Let_def split: prod.splits)

lemma vader_returns: "\<exists>v. analyze_sentiment_vader env text = Inr v"
  using basic_returns by (simp add: analyze_sentiment_vader_def Let_def split: sum.splits)

lemma vader_valid:
  assumes "\<forall>t c. vader_compound env t = Inr c \<longrightarrow> - 1 \<le> c \<and> c \<le> 1"
  shows "valid_verdict (analyze_sentiment_vader env text)"
proof (cases "vader_compound env text")
  case (Inl e)
  then show ?thesis using basic_valid by (simp add: analyze_sentiment_vader_def)
next
  case (Inr c)
  with assms have "- 1 \<le> c \<and> c \<le> 1" by blast
  with Inr show ?thesis
    by (simp add: analyze_sentiment_vader_def valid_verdict_def Let_def)
qed

lemma vader_no_confidence: "confidence_of (analyze_sentiment_vader env text) = None"
proof (cases "vader_compound env text")
  case (Inl e)
  then show ?thesis using basic_no_confidence by (simp add: analyze_sentiment_vader_def)
next
  case (Inr c)
  then show ?thesis by (simp add: analyze_sentiment_vader_def confidence_of_def Let_def)
qed

lemma cascade_cases:
  "analyze_sentiment env text =
     (if generative_tier_answers env text then analyze_sentiment_gemini env text
      else if vader_available env then analyze_sentiment_vader env text
      else analyze_sentiment_basic text)"
  by (simp add: analyze_sentiment_def generative_tier_answers_def split: sum.splits)

text \<open>
  C1 (as amended). For every text and every environment whose lexicon engine scores within
  \<open>[-1, 1]\<close>, the entry point returns a verdict and never raises: a failure of the
  generative tier or of the lexicon engine is caught, and the keyword tier always returns.
  Whenever the generative tier is not the one that answers, the sentiment is one of
  positive, neutral and negative and the score lies in \<open>[0, 1]\<close>. When the generative
  tier answers, the verdict is the one it built from the provider's reply: the provider's
  label in lower case and the provider's score as they came. With no provider key and no
  lexicon engine the verdict is the keyword tier's.
\<close>

theorem analyze_sentiment_never_raises:
  assumes "\<forall>t c. vader_compound env t = Inr c \<longrightarrow> - 1 \<le> c \<and> c \<le> 1"
  shows "(\<exists>v. analyze_sentiment env text = Inr v)
       \<and> (\<exists>v. analyze_sentiment_basic text = Inr v)
       \<and> (\<not> generative_tier_answers env text \<longrightarrow> valid_verdict (analyze_sentiment env text))
       \<and> (generative_tier_answers env text \<longrightarrow>
             analyze_sentiment env text = analyze_sentiment_gemini env text)
       \<and> (\<not> key_set env \<and> \<not> vader_available env \<longrightarrow>
             analyze_sentiment env text = analyze_sentiment_basic text)"
proof -
  have returns: "\<exists>v. analyze_sentiment env text = Inr v"
    using basic_returns vader_returns
    by (auto simp: cascade_cases generative_tier_answers_def split: sum.splits)
  have below: "valid_verdict (analyze_sentiment env text)" if "\<not> generative_tier_answers env text"
    using that vader_valid [OF assms] basic_valid by (simp add: cascade_cases)
  have offline: "analyze_sentiment env text = analyze_sentiment_basic text"
    if "\<not> key_set env \<and> \<not> vader_available env"
    using that by (simp add: cascade_cases generative_tier_answers_def)
  from returns basic_returns below offline show ?thesis
    by (simp add: cascade_cases)
qed

theorem analyze_sentiment_never_raises_witness:
  "(\<exists>v. analyze_sentiment lexicon_only ''It is fine'' = Inr v)
   \<and> valid_verdict (analyze_sentiment lexicon_only ''It is fine'')
   \<and> score_of (analyze_sentiment lexicon_only ''It is fine'') = Some (JNum 0.8)"
proof -
  have bound: "\<forall>t c. vader_compound lexicon_only t = Inr c \<longrightarrow> - 1 \<le> c \<and> c \<le> 1"
    by (simp add: lexicon_only_def)
  have tier: "\<not> generative_tier_answers lexicon_only ''It is fine''"
    by (simp add: generative_tier_answers_def key_set_def lexicon_only_def)
  have "analyze_sentiment lexicon_only ''It is fine'' =
      analyze_sentiment_vader lexicon_only ''It is fine''"
    using tier by (simp add: cascade_cases) (simp add: lexicon_only_def)
  then have score: "score_of (analyze_sentiment lexicon_only ''It is fine'') = Some (JNum 0.8)"
    by (simp add: score_of_def analyze_sentiment_vader_def Let_def lexicon_only_def)
  from analyze_sentiment_never_raises [OF bound, of "''It is fine''"] tier score
  show ?thesis by blast
qed

text \<open>
  C1 as stated fails: with a provider key set and a provider that answers
  \<open>{"sentiment": "MIXED", "sentiment_score": 1.5}\<close>, the entry point returns the
  sentiment \<open>mixed\<close> and the score \<open>1.5\<close>.
\<close>

theorem analyze_sentiment_unvalidated_counterexample:
  "analyze_sentiment freehand_provider ''It is fine'' =
     Inr [(''sentiment'', JStr ''mixed''), (''score'', JNum 1.5), (''aspects'', JObj []),
          (''summary'', JStr []), (''strengths'', JArr []), (''weaknesses'', JArr []),
          (''improvement_suggestions'', JArr [])]
   \<and> \<not> valid_verdict (analyze_sentiment freehand_provider ''It is fine'')"
proof -
  have l: "lower ''MIXED'' = ''mixed''" by code_simp
  have v: "analyze_sentiment freehand_provider ''It is fine'' =
     Inr [(''sentiment'', JStr ''mixed''), (''score'', JNum 1.5), (''aspects'', JObj []),
          (''summary'', JStr []), (''strengths'', JArr []), (''weaknesses'', JArr []),
          (''improvement_suggestions'', JArr [])]"
    by (simp add: analyze_sentiment_def analyze_sentiment_gemini_def key_set_def
        freehand_provider_def dict_get_def l)
  show ?thesis unfolding v by (simp add: valid_verdict_def)
qed

section \<open>The confidence of a row\<close>

text \<open>
  C8 (as amended). For every text answered by the lexicon tier or by the keyword tier, the
  verdict that the entry point returns has no confidence field; the result object that
  \<open>process_file\<close> builds from it for the row has the confidence \<open>0.8\<close>.
\<close>

theorem confidence_default_in_row_result:
  assumes "\<not> generative_tier_answers env text"
  shows "\<exists>v r. analyze_sentiment env text = Inr v
           \<and> map_of v ''confidence'' = None
           \<and> build_result text v = Inr r
           \<and> map_of r ''confidence'' = Some (JNum 0.8)"
proof (cases "vader_available env \<and> (\<exists>c. vader_compound env text = Inr c)")
  case True
  then obtain c where c: "vader_compound env text = Inr c" by blast
  with True assms show ?thesis
    by (simp add: cascade_cases analyze_sentiment_vader_def Let_def build_result_def
        dict_get_def newline_def)
next
  case False
  with assms have "analyze_sentiment env text = analyze_sentiment_basic text"
    by (cases "vader_compound env text")
       (auto simp: cascade_cases analyze_sentiment_vader_def)
  then show ?thesis
    by (simp add: analyze_sentiment_basic_def Let_def build_result_def dict_get_def newline_def
        split: prod.splits)
qed

theorem confidence_default_in_row_result_witness:
  "\<not> generative_tier_answers offline ''good product''
   \<and> (\<exists>v r. analyze_sentiment offline ''good product'' = Inr v
           \<and> map_of v ''confidence'' = None
           \<and> build_result ''good product'' v = Inr r
           \<and> map_of r ''confidence'' = Some (JNum 0.8))"
proof -
  have tier: "\<not> generative_tier_answers offline ''good product''"
    by (simp add: generative_tier_answers_def key_set_def offline_def)
  from confidence_default_in_row_result [OF tier] tier show ?thesis by blast
qed

text \<open>
  C8 as stated fails: with no provider key and no lexicon engine, the verdict returned for
  \<open>good product\<close> comes from the keyword tier and has no confidence field.
\<close>

theorem verdict_without_confidence_counterexample:
  "\<not> generative_tier_answers offline ''good product''
   \<and> (\<exists>v. analyze_sentiment offline ''good product'' = Inr v)
   \<and> confidence_of (analyze_sentiment offline ''good product'') = None
   \<and> confidence_of (analyze_sentiment offline ''good product'') \<noteq> Some (JNum 0.8)"
proof -
  have tier: "\<not> generative_tier_answers offline ''good product''"
    by (simp add: generative_tier_answers_def key_set_def offline_def)
  have eq: "analyze_sentiment offline ''good product'' = analyze_sentiment_basic ''good product''"
    using tier by (simp add: cascade_cases) (simp add: offline_def)
  show ?thesis using tier basic_returns [of "''good product''"] basic_no_confidence
    by (simp add: eq)
qed

section \<open>Insight synthesis\<close>

lemma count_sentiments_positive:
  "(case count_sentiments reviews counts ''positive'' of None \<Rightarrow> 0 | Some c \<Rightarrow> c) =
     (case counts ''positive'' of None \<Rightarrow> 0 | Some c \<Rightarrow> c)
       + length (filter (\<lambda>review. cr_sentiment review = Some ''positive'') reviews)"
proof (induction reviews arbitrary: counts)
  case Nil
  then show ?case by simp
next
  case (Cons review reviews)
  show ?case
    by (cases "cr_sentiment review") (simp_all add: Cons.IH Let_def)
qed

lemma positive_percentage_eq:
  "reviews \<noteq> [] \<Longrightarrow>
   positive_percentage reviews =
     real (length (filter (\<lambda>review. cr_sentiment review = Some ''positive'') reviews))
       / real (length reviews) * 100"
  by (simp add: positive_percentage_def Let_def count_sentiments_positive)

lemma all_positive_percentage:
  assumes "reviews \<noteq> []" and "\<forall>review \<in> set reviews. cr_sentiment review = Some ''positive''"
  shows "positive_percentage reviews = 100"
proof -
  have "filter (\<lambda>review. cr_sentiment review = Some ''positive'') reviews = reviews"
    using assms(2) by (simp add: filter_id_conv)
  with assms(1) show ?thesis by (simp add: positive_percentage_eq)
qed

lemma summary_very_satisfied:
  "positive_percentage reviews \<ge> 70 \<Longrightarrow>
   customer_satisfaction_summary (generate_insights_basic set_order reviews product_name) =
     ''Customers are generally very satisfied with the product.''"
  by (simp add: generate_insights_basic_def Let_def)

text \<open>
  C4. Given an empty batch, the synthesizer returns the fixed "not enough data" report
  (no strengths, weaknesses, suggestions or insights, \<open>Not enough data\<close> as advantage and
  as summary) and sends no request to the provider. On a non-empty batch whose reviews are
  all classified positive the positive percentage is 100, and whenever the percentage is at
  least 70 the heuristic tier's summary is the "generally very satisfied" one.
\<close>

theorem synthesis_empty_and_all_positive:
  "generate_actionable_insights env set_order [] product_name =
     (0, Report \<lparr>key_strengths = [], key_weaknesses = [], improvement_suggestions = [],
                 competitive_advantage = ''Not enough data'',
                 customer_satisfaction_summary = ''Not enough data'',
                 actionable_insights = []\<rparr>)
   \<and> (reviews \<noteq> [] \<and> (\<forall>review \<in> set reviews. cr_sentiment review = Some ''positive'') \<longrightarrow>
         positive_percentage reviews = 100
         \<and> customer_satisfaction_summary (generate_insights_basic set_order reviews product_name) =
             ''Customers are generally very satisfied with the product.'')
   \<and> (positive_percentage reviews \<ge> 70 \<longrightarrow>
         customer_satisfaction_summary (generate_insights_basic set_order reviews product_name) =
             ''Customers are generally very satisfied with the product.'')"
proof -
  have empty: "generate_actionable_insights env set_order [] product_name =
     (0, Report \<lparr>key_strengths = [], key_weaknesses = [], improvement_suggestions = [],
                 competitive_advantage = ''Not enough data'',
                 customer_satisfaction_summary = ''Not enough data'',
                 actionable_insights = []\<rparr>)"
    by (simp add: generate_actionable_insights_def)
  have positive: "positive_percentage reviews = 100
         \<and> customer_satisfaction_summary (generate_insights_basic set_order reviews product_name) =
             ''Customers are generally very satisfied with the product.''"
    if "reviews \<noteq> [] \<and> (\<forall>review \<in> set reviews. cr_sentiment review = Some ''positive'')"
    using that all_positive_percentage [of reviews] summary_very_satisfied [of reviews] by simp
  from empty positive summary_very_satisfied show ?thesis by blast
qed

theorem synthesis_empty_and_all_positive_witness:
  "two_happy \<noteq> []
   \<and> list_all (\<lambda>review. cr_sentiment review = Some ''positive'') two_happy
   \<and> positive_percentage two_happy = 100
   \<and> customer_satisfaction_summary (generate_insights_basic remdups two_happy ''Kettle'') =
        ''Customers are generally very satisfied with the product.''
   \<and> generate_actionable_insights offline remdups [] ''Kettle'' =
     (0, Report \<lparr>key_strengths = [], key_weaknesses = [], improvement_suggestions = [],
                 competitive_advantage = ''Not enough data'',
                 customer_satisfaction_summary = ''Not enough data'',
                 actionable_insights = []\<rparr>)"
proof -
  have ne: "two_happy \<noteq> []" by (simp add: two_happy_def)
  have pos: "\<forall>review \<in> set two_happy. cr_sentiment review = Some ''positive''"
    by (simp add: two_happy_def)
  from synthesis_empty_and_all_positive [of offline remdups "''Kettle''" two_happy] ne pos
  show ?thesis by (simp add: list_all_iff)
qed

section \<open>Schema inference\<close>

lemma get_column_member:
  "distinct (columns df) \<Longrightarrow> c \<in> set df \<Longrightarrow> get_column df (col_name c) = Some c"
  unfolding get_column_def columns_def
  by (induction df) (auto simp: rev_image_eqI)

lemma get_column_present:
  "name \<in> set (columns df) \<Longrightarrow> \<exists>c. get_column df name = Some c \<and> c \<in> set df \<and> col_name c = name"
  unfolding get_column_def columns_def
  by (induction df) auto

lemma get_column_alias:
  "name \<notin> set (columns df) \<Longrightarrow> get_column (df @ [c\<lparr>col_name := name\<rparr>]) name = Some (c\<lparr>col_name := name\<rparr>)"
  unfolding get_column_def columns_def
  by (induction df) auto

lemma cells_of_alias:
  assumes "''text'' \<notin> set (columns df)" and "get_column df ''review_text'' = Some c"
  shows "cells_of (df @ [c\<lparr>col_name := ''text''\<rparr>]) ''text'' = cells_of df ''review_text''"
  using assms by (simp add: cells_of_def get_column_alias)

lemma columns_alias: "columns (df @ [c\<lparr>col_name := name\<rparr>]) = columns df @ [name]"
  by (simp add: columns_def)

lemma find_text_column_first:
  "find_text_column df = Some name \<Longrightarrow> name \<in> set (columns df)"
  by (auto simp: find_text_column_def columns_def find_Some_iff split: if_splits option.splits)

text \<open>
  C3. For every ingested table (its column names distinct and not empty, as the file
  reader makes them), the text column is resolved by name: \<open>text\<close> first, then
  \<open>review_text\<close>, then \<open>comment\<close>, then \<open>feedback\<close>; if none of the four is a column, the
  first column of dtype object whose average string length exceeds 10 is chosen; if no
  column qualifies, the upload ends with the no-text-column error. When \<open>review_text\<close> is
  chosen in the wide format (with \<open>product_name\<close> and \<open>rating\<close>), the texts are read
  through the alias \<open>text\<close> and are the values of \<open>review_text\<close>; in particular so for a
  table whose columns are \<open>review_text\<close>, \<open>rating\<close> and \<open>product_name\<close>.
\<close>

theorem text_column_resolution:
  assumes "distinct (columns df)" and "[] \<notin> set (columns df)"
  shows "(''text'' \<in> set (columns df) \<longrightarrow>
            resolve_text_column df = Inr (''text'', cells_of df ''text''))
       \<and> (''text'' \<notin> set (columns df) \<and> ''review_text'' \<in> set (columns df) \<longrightarrow>
            resolve_text_column df =
              Inr (if ''product_name'' \<in> set (columns df) \<and> ''rating'' \<in> set (columns df)
                   then ''text'' else ''review_text'',
                   cells_of df ''review_text''))
       \<and> (''text'' \<notin> set (columns df) \<and> ''review_text'' \<notin> set (columns df)
             \<and> ''comment'' \<in> set (columns df) \<longrightarrow>
            resolve_text_column df = Inr (''comment'', cells_of df ''comment''))
       \<and> (''text'' \<notin> set (columns df) \<and> ''review_text'' \<notin> set (columns df)
             \<and> ''comment'' \<notin> set (columns df) \<and> ''feedback'' \<in> set (columns df) \<longrightarrow>
            resolve_text_column df = Inr (''feedback'', cells_of df ''feedback''))
       \<and> (''text'' \<notin> set (columns df) \<and> ''review_text'' \<notin> set (columns df)
             \<and> ''comment'' \<notin> set (columns df) \<and> ''feedback'' \<notin> set (columns df) \<longrightarrow>
            resolve_text_column df =
              (case find (\<lambda>c. col_is_object c \<and> mean_length_over_10 (col_cells c)) df of
                 None \<Rightarrow> Inl No_suitable_text_column
               | Some c \<Rightarrow> Inr (col_name c, col_cells c)))
       \<and> (set (columns df) = {''review_text'', ''rating'', ''product_name''} \<longrightarrow>
            resolve_text_column df = Inr (''text'', cells_of df ''review_text''))"
proof -
  have by_text: "resolve_text_column df = Inr (''text'', cells_of df ''text'')"
    if "''text'' \<in> set (columns df)"
    using that by (simp add: resolve_text_column_def prepare_amazon_def find_text_column_def)
  have by_review_text: "resolve_text_column df =
              Inr (if ''product_name'' \<in> set (columns df) \<and> ''rating'' \<in> set (columns df)
                   then ''text'' else ''review_text'',
                   cells_of df ''review_text'')"
    if h: "''text'' \<notin> set (columns df) \<and> ''review_text'' \<in> set (columns df)"
  proof -
    from h obtain c where c: "get_column df ''review_text'' = Some c"
      using get_column_present by blast
    show ?thesis
    proof (cases "''product_name'' \<in> set (columns df) \<and> ''rating'' \<in> set (columns df)")
      case True
      with h c have "prepare_amazon df = df @ [c\<lparr>col_name := ''text''\<rparr>]"
        by (simp add: prepare_amazon_def)
      with h c True show ?thesis
        by (simp add: resolve_text_column_def find_text_column_def columns_alias cells_of_alias)
    next
      case False
      then have "prepare_amazon df = df" by (auto simp: prepare_amazon_def)
      with h False show ?thesis
        by (auto simp: resolve_text_column_def find_text_column_def)
    qed
  qed
  have same: "prepare_amazon df = df" if "''review_text'' \<notin> set (columns df)"
    using that by (simp add: prepare_amazon_def)
  have by_comment: "resolve_text_column df = Inr (''comment'', cells_of df ''comment'')"
    if "''text'' \<notin> set (columns df) \<and> ''review_text'' \<notin> set (columns df)
             \<and> ''comment'' \<in> set (columns df)"
    using that by (simp add: resolve_text_column_def same find_text_column_def)
  have by_feedback: "resolve_text_column df = Inr (''feedback'', cells_of df ''feedback'')"
    if "''text'' \<notin> set (columns df) \<and> ''review_text'' \<notin> set (columns df)
             \<and> ''comment'' \<notin> set (columns df) \<and> ''feedback'' \<in> set (columns df)"
    using that by (simp add: resolve_text_column_def same find_text_column_def)
  have by_content: "resolve_text_column df =
              (case find (\<lambda>c. col_is_object c \<and> mean_length_over_10 (col_cells c)) df of
                 None \<Rightarrow> Inl No_suitable_text_column
               | Some c \<Rightarrow> Inr (col_name c, col_cells c))"
    if h: "''text'' \<notin> set (columns df) \<and> ''review_text'' \<notin> set (columns df)
             \<and> ''comment'' \<notin> set (columns df) \<and> ''feedback'' \<notin> set (columns df)"
  proof (cases "find (\<lambda>c. col_is_object c \<and> mean_length_over_10 (col_cells c)) df")
    case None
    with h show ?thesis by (simp add: resolve_text_column_def same find_text_column_def)
  next
    case (Some c)
    then have member: "c \<in> set df" by (auto simp: find_Some_iff)
    then have "col_name c \<in> set (columns df)" by (simp add: columns_def)
    with assms(2) have nonempty: "col_name c \<noteq> []" by auto
    from member assms(1) have "cells_of df (col_name c) = col_cells c"
      by (simp add: cells_of_def get_column_member)
    with h Some nonempty show ?thesis
      by (simp add: resolve_text_column_def same find_text_column_def)
  qed
  have wide: "resolve_text_column df = Inr (''text'', cells_of df ''review_text'')"
    if "set (columns df) = {''review_text'', ''rating'', ''product_name''}"
  proof -
    from that have "''text'' \<notin> set (columns df) \<and> ''review_text'' \<in> set (columns df)"
      and "''product_name'' \<in> set (columns df) \<and> ''rating'' \<in> set (columns df)"
      by simp_all
    then show ?thesis using by_review_text by simp
  qed
  from by_text by_review_text by_comment by_feedback by_content wide show ?thesis by blast
qed

theorem text_column_resolution_witness:
  "distinct (columns amazon_upload) \<and> [] \<notin> set (columns amazon_upload)
   \<and> set (columns amazon_upload) = {''review_text'', ''rating'', ''product_name''}
   \<and> resolve_text_column amazon_upload =
        Inr (''text'', [''Works well and looks good'', ''Broke after a week''])"
proof -
  have d: "distinct (columns amazon_upload)" by (simp add: columns_def amazon_upload_def)
  have n: "[] \<notin> set (columns amazon_upload)" by (simp add: columns_def amazon_upload_def)
  have c: "set (columns amazon_upload) = {''review_text'', ''rating'', ''product_name''}"
    by (auto simp: columns_def amazon_upload_def)
  have cells: "cells_of amazon_upload ''review_text'' =
      [''Works well and looks good'', ''Broke after a week'']"
    by (simp add: cells_of_def get_column_def amazon_upload_def)
  from text_column_resolution [OF d n] c cells show ?thesis using d n by simp
qed

section \<open>Review ingestion: the second pass\<close>

lemma process_review_id: "process_review src raw = Inr p \<Longrightarrow> review_id p = raw_id raw"
  by (auto simp: process_review_def split: option.splits)

lemma extends_fresh_refl: "extends_fresh old old"
  by (simp add: extends_fresh_def)

lemma extends_fresh_trans:
  assumes "extends_fresh a b" and "extends_fresh b c"
  shows "extends_fresh a c"
proof -
  from assms(1) obtain e1 where e1: "b = a @ e1"
    "\<forall>r \<in> set e1. review_id r \<notin> review_id ` set a" "distinct (map review_id e1)"
    by (auto simp: extends_fresh_def)
  from assms(2) obtain e2 where e2: "c = b @ e2"
    "\<forall>r \<in> set e2. review_id r \<notin> review_id ` set b" "distinct (map review_id e2)"
    by (auto simp: extends_fresh_def)
  have "c = a @ (e1 @ e2)" using e1(1) e2(1) by simp
  moreover have "\<forall>r \<in> set (e1 @ e2). review_id r \<notin> review_id ` set a"
    using e1(1,2) e2(2) by auto
  moreover have "review_id ` set e1 \<inter> review_id ` set e2 = {}"
  proof (rule ccontr)
    assume "review_id ` set e1 \<inter> review_id ` set e2 \<noteq> {}"
    then obtain i where i1: "i \<in> review_id ` set e1" and i2: "i \<in> review_id ` set e2"
      by blast
    from i2 obtain x where x: "x \<in> set e2" and ix: "i = review_id x" by blast
    from x e2(2) have "review_id x \<notin> review_id ` set b" by blast
    then have "review_id x \<notin> review_id ` set e1" using e1(1) by auto
    with i1 ix show False by simp
  qed
  then have "distinct (map review_id (e1 @ e2))"
    using e1(3) e2(3) by simp
  ultimately show ?thesis unfolding extends_fresh_def by blast
qed

lemma extends_fresh_snoc:
  assumes "\<not> list_ex (\<lambda>r. review_id r = review_id p) old"
  shows "extends_fresh old (old @ [p])"
  using assms by (auto simp: extends_fresh_def list_ex_iff)

lemma add_new_reviews_fresh:
  "extends_fresh all_reviews (snd (add_new_reviews src num_reviews raws all_reviews))"
proof (induction src num_reviews raws all_reviews rule: add_new_reviews.induct)
  case (1 src num_reviews all_reviews)
  show ?case by (simp add: extends_fresh_refl)
next
  case (2 src num_reviews raw rest all_reviews)
  show ?case
  proof (cases "list_ex (\<lambda>r. review_id r = raw_id raw) all_reviews")
    case True
    with 2(1) show ?thesis by simp
  next
    case False
    show ?thesis
    proof (cases "process_review src raw")
      case (Inl e)
      with False show ?thesis by (simp add: extends_fresh_refl)
    next
      case (Inr p)
      with False have step: "extends_fresh all_reviews (all_reviews @ [p])"
        using extends_fresh_snoc [of p all_reviews] by (simp add: process_review_id)
      show ?thesis
      proof (cases "int (length (all_reviews @ [p])) \<ge> num_reviews")
        case True
        with False Inr step show ?thesis by simp
      next
        case full: False
        with 2(2) [OF False Inr] have
          "extends_fresh (all_reviews @ [p])
             (snd (add_new_reviews src num_reviews rest (all_reviews @ [p])))"
          by simp
        with step have "extends_fresh all_reviews
             (snd (add_new_reviews src num_reviews rest (all_reviews @ [p])))"
          by (rule extends_fresh_trans)
        with False Inr full show ?thesis by simp
      qed
    qed
  qed
qed

lemma sort_pages_fresh:
  "extends_fresh all_reviews (sort_pages src num_reviews sort_by pages all_reviews)"
proof (induction pages arbitrary: all_reviews)
  case Nil
  show ?case by (simp add: extends_fresh_refl)
next
  case (Cons page pages)
  show ?case
  proof (cases "fetch_page src sort_by All_stars page")
    case Fetch_failed
    then show ?thesis by (simp add: extends_fresh_refl)
  next
    case (Page reviews)
    obtain raised all' where r: "add_new_reviews src num_reviews reviews all_reviews = (raised, all')"
      by (cases "add_new_reviews src num_reviews reviews all_reviews")
    then have one: "extends_fresh all_reviews all'"
      using add_new_reviews_fresh [of all_reviews src num_reviews reviews] by simp
    have two: "extends_fresh all_reviews (sort_pages src num_reviews sort_by pages all')"
      using one Cons.IH by (rule extends_fresh_trans)
    from Page r one two show ?thesis
      by (cases raised) (simp_all add: extends_fresh_refl)
  qed
qed

lemma sort_strategies_fresh:
  "extends_fresh all_reviews (sort_strategies src num_reviews options all_reviews)"
proof (induction options arbitrary: all_reviews)
  case Nil
  show ?case by (simp add: extends_fresh_refl)
next
  case (Cons sort_by options)
  have "extends_fresh all_reviews
      (sort_strategies src num_reviews options (sort_pages src num_reviews sort_by [1, 2] all_reviews))"
    using sort_pages_fresh Cons.IH by (rule extends_fresh_trans)
  then show ?case by (simp del: sort_pages.simps add: extends_fresh_refl)
qed

lemma second_pass_fresh: "extends_fresh all_reviews (second_pass src num_reviews all_reviews)"
  by (simp add: second_pass_def sort_strategies_fresh extends_fresh_refl
      del: sort_strategies.simps)

lemma first_pass_overlapping:
  "map review_id (first_pass overlapping_source 5) = [''R1'']"
  by (simp add: first_pass_def overlapping_source_def process_review_def item_a_def)

lemma second_pass_overlapping:
  "map review_id (second_pass overlapping_source 5 (first_pass overlapping_source 5)) = [''R1'', ''R2'']"
  by (simp add: second_pass_def first_pass_def overlapping_source_def process_review_def item_a_def item_b_def)

text \<open>
  C6. During the second pass, a fetched item whose id is the id of a review already in
  the accumulated list is skipped, whatever the accumulated list is; and what the second
  pass returns is the list of the first pass followed by reviews whose ids are not ids of
  the first pass (and differ from each other).
\<close>

theorem second_pass_skips_known_ids:
  "(list_ex (\<lambda>r. review_id r = raw_id raw) all_reviews \<longrightarrow>
      add_new_reviews src num_reviews (raw # rest) all_reviews =
        add_new_reviews src num_reviews rest all_reviews)
   \<and> (\<exists>extra. second_pass src num_reviews (first_pass src num_reviews) =
                  first_pass src num_reviews @ extra
          \<and> (\<forall>r \<in> set extra. review_id r \<notin> review_id ` set (first_pass src num_reviews))
          \<and> distinct (map review_id extra))"
  using second_pass_fresh [of "first_pass src num_reviews" src num_reviews]
  by (simp add: extends_fresh_def)

theorem second_pass_skips_known_ids_witness:
  "list_ex (\<lambda>r. review_id r = raw_id item_a) (first_pass overlapping_source 5)
   \<and> add_new_reviews overlapping_source 5 [item_a, item_b] (first_pass overlapping_source 5) =
       add_new_reviews overlapping_source 5 [item_b] (first_pass overlapping_source 5)
   \<and> map review_id (first_pass overlapping_source 5) = [''R1'']
   \<and> map review_id (second_pass overlapping_source 5 (first_pass overlapping_source 5)) =
       [''R1'', ''R2'']"
proof -
  have "raw_id item_a \<in> set (map review_id (first_pass overlapping_source 5))"
    unfolding first_pass_overlapping by (simp add: item_a_def)
  then have known: "list_ex (\<lambda>r. review_id r = raw_id item_a) (first_pass overlapping_source 5)"
    by (auto simp: list_ex_iff)
  from second_pass_skips_known_ids
    [of item_a "first_pass overlapping_source 5" overlapping_source 5 "[item_b]"] known
  have "add_new_reviews overlapping_source 5 [item_a, item_b] (first_pass overlapping_source 5) =
       add_new_reviews overlapping_source 5 [item_b] (first_pass overlapping_source 5)"
    by blast
  with known first_pass_overlapping second_pass_overlapping show ?thesis by blast
qed

section \<open>Review ingestion: the backfill\<close>

lemma mock_review_raises:
  "day (today src) \<le> drawn_days_ago (draws src i) \<Longrightarrow> mock_review src asin i = Inl ValueError"
  by (simp add: mock_review_def Let_def)

lemma choice_member: "xs \<noteq> [] \<Longrightarrow> choice xs k \<in> set xs"
  by (simp add: choice_def)

lemma templates_nonempty:
  "positive_texts \<noteq> [] \<and> neutral_texts \<noteq> [] \<and> negative_texts \<noteq> []"
  by (simp add: positive_texts_def neutral_texts_def negative_texts_def)

lemma mock_review_returns:
  "drawn_days_ago (draws src i) < day (today src) \<Longrightarrow>
   \<exists>r. mock_review src asin i = Inr r \<and> is_mock asin r"
  using templates_nonempty
  by (simp add: mock_review_def Let_def is_mock_def is_prefix_iff choice_member)

lemma mock_review_error: "mock_review src asin i = Inl e \<Longrightarrow> e = ValueError"
  by (auto simp: mock_review_def Let_def split: if_splits)

lemma mock_loop_raises:
  "\<exists>i \<in> set indices. day (today src) \<le> drawn_days_ago (draws src i) \<Longrightarrow>
   mock_loop src asin indices = Inl ValueError"
proof (induction indices)
  case Nil
  then show ?case by simp
next
  case (Cons i rest)
  show ?case
  proof (cases "mock_review src asin i")
    case (Inl e)
    then show ?thesis using mock_review_error by simp
  next
    case (Inr r)
    then have "\<not> day (today src) \<le> drawn_days_ago (draws src i)"
      using mock_review_raises [of src i asin] by auto
    with Cons.prems have "\<exists>i \<in> set rest. day (today src) \<le> drawn_days_ago (draws src i)"
      by auto
    with Cons.IH Inr show ?thesis by simp
  qed
qed

lemma mock_loop_returns:
  "\<forall>i \<in> set indices. drawn_days_ago (draws src i) < day (today src) \<Longrightarrow>
   \<exists>rs. mock_loop src asin indices = Inr rs \<and> length rs = length indices
      \<and> list_all (is_mock asin) rs"
proof (induction indices)
  case Nil
  then show ?case by simp
next
  case (Cons i rest)
  then obtain r where r: "mock_review src asin i = Inr r" "is_mock asin r"
    using mock_review_returns [of src i asin] by auto
  from Cons obtain rs where rs: "mock_loop src asin rest = Inr rs" "length rs = length rest"
    "list_all (is_mock asin) rs" by auto
  from r rs show ?case by simp
qed

lemma rating_pages_empty:
  "\<forall>sort_by star page. fetch_page src sort_by star page = Page [] \<Longrightarrow>
   rating_pages src star_rating per pages (all_reviews, n) = (all_reviews, n)"
  by (cases pages) simp_all

lemma first_pass_empty:
  assumes "\<forall>sort_by star page. fetch_page src sort_by star page = Page []"
  shows "first_pass src num_reviews = []"
  unfolding first_pass_def Let_def by (simp add: rating_pages_empty [OF assms] del: rating_pages.simps)

lemma sort_pages_empty:
  "\<forall>sort_by star page. fetch_page src sort_by star page = Page [] \<Longrightarrow>
   sort_pages src num_reviews sort_by pages all_reviews = all_reviews"
  by (cases pages) simp_all

lemma second_pass_empty:
  assumes "\<forall>sort_by star page. fetch_page src sort_by star page = Page []"
  shows "second_pass src num_reviews all_reviews = all_reviews"
  unfolding second_pass_def by (simp add: sort_pages_empty [OF assms] del: sort_pages.simps)

lemma backfill_raises:
  assumes "\<forall>sort_by star page. fetch_page src sort_by star page = Page []"
    and "\<exists>i < nat num_reviews. day (today src) \<le> drawn_days_ago (draws src i)"
  shows "scrape_amazon_reviews_api src asin num_reviews = Inl ValueError"
proof -
  from assms(2) have positive: "0 < num_reviews" by auto
  from assms(2) have "\<exists>i \<in> set [0 ..< nat num_reviews]. day (today src) \<le> drawn_days_ago (draws src i)"
    by auto
  then have "mock_amazon_reviews src asin num_reviews = Inl ValueError"
    unfolding mock_amazon_reviews_def by (rule mock_loop_raises)
  with positive show ?thesis
    by (simp add: scrape_amazon_reviews_api_def first_pass_empty [OF assms(1)]
        second_pass_empty [OF assms(1)])
qed

lemma backfill_when_dates_valid:
  assumes "\<forall>sort_by star page. fetch_page src sort_by star page = Page []"
    and "0 \<le> num_reviews"
    and "\<forall>i < nat num_reviews. drawn_days_ago (draws src i) < day (today src)"
  shows "\<exists>rs. scrape_amazon_reviews_api src asin num_reviews = Inr rs
           \<and> int (length rs) = num_reviews \<and> list_all (is_mock asin) rs"
proof -
  from assms(3) have "\<forall>i \<in> set [0 ..< nat num_reviews]. drawn_days_ago (draws src i) < day (today src)"
    by auto
  from mock_loop_returns [OF this, of asin] obtain rs
    where rs: "mock_amazon_reviews src asin num_reviews = Inr rs"
      "length rs = nat num_reviews" "list_all (is_mock asin) rs"
    by (auto simp: mock_amazon_reviews_def)
  with assms(2) show ?thesis
    by (cases "num_reviews = 0")
       (auto simp: scrape_amazon_reviews_api_def first_pass_empty [OF assms(1)]
        second_pass_empty [OF assms(1)] mock_amazon_reviews_def)
qed

text \<open>
  C5. With a target of 20 and a source that returns no item on any page, the coordinator
  asks the generator for 20 placeholders. On the 6th of a month with a draw of 200 days
  ago the generator raises \<open>ValueError\<close> (\<open>replace(day=6 - 200)\<close>), nothing catches it,
  and the coordinator returns no record. (By \<open>backfill_when_dates_valid\<close> the 20
  placeholders are returned, each with a \<open>mock_\<close> id, when every draw is below the day
  of the month.)
\<close>

theorem backfill_raises_on_empty_source:
  "scrape_amazon_reviews_api empty_source ''B08N5WRWNW'' 20 = Inl ValueError"
proof -
  have pages: "\<forall>sort_by star page. fetch_page empty_source sort_by star page = Page []"
    by (simp add: empty_source_def)
  have "day (today empty_source) \<le> drawn_days_ago (draws empty_source 0)"
    by (simp add: empty_source_def)
  then have "\<exists>i < nat 20. day (today empty_source) \<le> drawn_days_ago (draws empty_source i)"
    by (intro exI [of _ 0]) simp
  with pages show ?thesis by (rule backfill_raises)
qed

end
